theory Spec2Isabelle
  imports Main "HOL-Library.Word"
begin

unbundle bit_operations_syntax

section \<open>JavaScript values\<close>

text \<open>
  The agent client (\<^verbatim>\<open>src/hooks/useAgent.ts\<close>, \<^verbatim>\<open>src/utils/aiAgent.ts\<close>) works on
  values of type \<^verbatim>\<open>any\<close>: whatever the JSON extractor returned. They are modelled as
  trees. An object is the list of its own properties in enumeration order, read with
  \<open>map_of\<close>. Numbers are the integers (status codes, counters); the fractional part of an
  IEEE double plays no role in the code modelled here. Strings are lists of 8-bit
  characters. A BigInt is a value of its own: it is the plain value \<^verbatim>\<open>JSON.stringify\<close>
  throws on. Functions, getters and cyclic objects are outside the model: every value
  here is a finite tree of plain data.
\<close>

datatype jsval =
    JUndefined
  | JNull
  | JBool bool
  | JNum int
  | JStr string
  | JArr "jsval list"
  | JObj "(string \<times> jsval) list"
  | JBigInt int

text \<open>What a \<^verbatim>\<open>throw\<close> carries: an \<^verbatim>\<open>Error\<close> instance (name, message, stack) or any
  other value.\<close>

datatype exn =
    Error string string string
  | Thrown jsval

text \<open>\<^verbatim>\<open>if (v)\<close>, \<^verbatim>\<open>!v\<close>, \<^verbatim>\<open>a || b\<close>: JavaScript's ToBoolean.\<close>

fun truthy :: "jsval \<Rightarrow> bool" where
  "truthy JUndefined = False"
| "truthy JNull = False"
| "truthy (JBool b) = b"
| "truthy (JNum n) = (n \<noteq> 0)"
| "truthy (JStr s) = (s \<noteq> [])"
| "truthy (JArr xs) = True"
| "truthy (JObj kvs) = True"
| "truthy (JBigInt n) = (n \<noteq> 0)"

fun typeof :: "jsval \<Rightarrow> string" where
  "typeof JUndefined = ''undefined''"
| "typeof JNull = ''object''"
| "typeof (JBool b) = ''boolean''"
| "typeof (JNum n) = ''number''"
| "typeof (JStr s) = ''string''"
| "typeof (JArr xs) = ''object''"
| "typeof (JObj kvs) = ''object''"
| "typeof (JBigInt n) = ''bigint''"

fun nullish :: "jsval \<Rightarrow> bool" where
  "nullish JUndefined = True"
| "nullish JNull = True"
| "nullish v = False"

text \<open>\<^verbatim>\<open>a || b\<close> on values.\<close>

definition js_or :: "jsval \<Rightarrow> jsval \<Rightarrow> jsval" where
  "js_or a b = (if truthy a then a else b)"

text \<open>
  Reading a property of a value that is neither \<^verbatim>\<open>null\<close> nor \<^verbatim>\<open>undefined\<close>. Only objects
  carry the properties the client reads (\<^verbatim>\<open>response\<close>, \<^verbatim>\<open>success\<close>, \<^verbatim>\<open>error\<close>,
  \<^verbatim>\<open>result\<close>, \<^verbatim>\<open>message\<close>, \<^verbatim>\<open>status\<close>, \<^verbatim>\<open>raw_response\<close>, \<^verbatim>\<open>details\<close>, ...): none of
  them is an array index, \<^verbatim>\<open>length\<close> or a member of a built-in prototype, so on arrays
  and primitives the read gives \<^verbatim>\<open>undefined\<close>.
\<close>

fun read_prop :: "jsval \<Rightarrow> string \<Rightarrow> jsval" where
  "read_prop (JObj kvs) k = (case map_of kvs k of None \<Rightarrow> JUndefined | Some v \<Rightarrow> v)"
| "read_prop v k = JUndefined"

text \<open>\<^verbatim>\<open>v.k\<close>: a TypeError on \<^verbatim>\<open>null\<close> and \<^verbatim>\<open>undefined\<close>.\<close>

definition type_error :: "string \<Rightarrow> exn" where
  "type_error k = Error ''TypeError'' (''Cannot read properties of null or undefined (reading '' @ k @ '')'') []"

definition get :: "jsval \<Rightarrow> string \<Rightarrow> exn + jsval" where
  "get v k = (if nullish v then Inl (type_error k) else Inr (read_prop v k))"

text \<open>\<^verbatim>\<open>v?.k\<close>: optional chaining.\<close>

definition getq :: "jsval \<Rightarrow> string \<Rightarrow> jsval" where
  "getq v k = (if nullish v then JUndefined else read_prop v k)"

subsection \<open>Number and value to string\<close>

fun nat_to_string :: "nat \<Rightarrow> string" where
  "nat_to_string n =
     (if n < 10 then [''0123456789'' ! n]
      else nat_to_string (n div 10) @ [''0123456789'' ! (n mod 10)])"

declare nat_to_string.simps [simp del]

definition int_to_string :: "int \<Rightarrow> string" where
  "int_to_string i = (if i < 0 then CHR ''-'' # nat_to_string (nat (- i)) else nat_to_string (nat i))"

fun join :: "string \<Rightarrow> string list \<Rightarrow> string" where
  "join sep [] = []"
| "join sep [s] = s"
| "join sep (s # t # ss) = s @ sep @ join sep (t # ss)"

text \<open>\<^verbatim>\<open>String(v)\<close> and the coercion of a template literal or of the argument of
  \<^verbatim>\<open>JSON.parse\<close>.\<close>

fun to_string :: "jsval \<Rightarrow> string" where
  "to_string JUndefined = ''undefined''"
| "to_string JNull = ''null''"
| "to_string (JBool b) = (if b then ''true'' else ''false'')"
| "to_string (JNum n) = int_to_string n"
| "to_string (JStr s) = s"
| "to_string (JArr xs) = join '','' (map (\<lambda>x. if nullish x then [] else to_string x) xs)"
| "to_string (JObj kvs) = ''[object Object]''"
| "to_string (JBigInt n) = int_to_string n"

subsection \<open>JSON.stringify\<close>

definition hex_nibble :: "nat \<Rightarrow> char" where
  "hex_nibble n = ''0123456789abcdef'' ! (n mod 16)"

definition json_escape :: "char \<Rightarrow> string" where
  "json_escape c =
     (if c = CHR 0x08 then [CHR 0x5C, CHR ''b'']
      else if c = CHR 0x09 then [CHR 0x5C, CHR ''t'']
      else if c = CHR 0x0A then [CHR 0x5C, CHR ''n'']
      else if c = CHR 0x0C then [CHR 0x5C, CHR ''f'']
      else if c = CHR 0x0D then [CHR 0x5C, CHR ''r'']
      else if c = CHR 0x22 then [CHR 0x5C, CHR 0x22]
      else if c = CHR 0x5C then [CHR 0x5C, CHR 0x5C]
      else if (of_char c :: nat) < 32
        then [CHR 0x5C, CHR ''u'', CHR ''0'', CHR ''0'',
              hex_nibble (of_char c div 16), hex_nibble (of_char c)]
      else [c])"

definition json_quote :: "string \<Rightarrow> string" where
  "json_quote s = CHR 0x22 # concat (map json_escape s) @ [CHR 0x22]"

text \<open>
  The serialisation of one value at indentation \<open>ind\<close> with the gap \<open>gap\<close> (two spaces
  for \<^verbatim>\<open>JSON.stringify(v, null, 2)\<close>, empty for \<^verbatim>\<open>JSON.stringify(v)\<close>); \<open>None\<close> where
  JavaScript gives \<^verbatim>\<open>undefined\<close>. An \<^verbatim>\<open>undefined\<close> array element is written
  \<^verbatim>\<open>null\<close>, an \<^verbatim>\<open>undefined\<close> property is left out. The traversal visits every
  element and every property, and JavaScript throws a TypeError as soon as it meets a
  BigInt: whether it throws is decided by \<open>contains_bigint\<close>, before the text is built,
  and the text of a value that holds a BigInt is never used.
\<close>

fun contains_bigint :: "jsval \<Rightarrow> bool" where
  "contains_bigint (JBigInt n) = True"
| "contains_bigint (JArr xs) = list_ex contains_bigint xs"
| "contains_bigint (JObj kvs) = list_ex (\<lambda>(k, v). contains_bigint v) kvs"
| "contains_bigint v = False"

definition bigint_error :: exn where
  "bigint_error = Error ''TypeError'' ''Do not know how to serialize a BigInt'' []"

fun serialize :: "string \<Rightarrow> string \<Rightarrow> jsval \<Rightarrow> string option" where
  "serialize gap ind JUndefined = None"
| "serialize gap ind JNull = Some ''null''"
| "serialize gap ind (JBool b) = Some (if b then ''true'' else ''false'')"
| "serialize gap ind (JNum n) = Some (int_to_string n)"
| "serialize gap ind (JStr s) = Some (json_quote s)"
| "serialize gap ind (JArr xs) =
     (let ind' = ind @ gap;
          partial = map (\<lambda>x. case serialize gap ind' x of None \<Rightarrow> ''null'' | Some s \<Rightarrow> s) xs
      in if partial = [] then Some ''[]''
         else if gap = [] then Some (''['' @ join '','' partial @ '']'')
         else Some (''['' @ [CHR 0x0A] @ ind' @ join ('','' @ [CHR 0x0A] @ ind') partial
                    @ [CHR 0x0A] @ ind @ '']''))"
| "serialize gap ind (JObj kvs) =
     (let ind' = ind @ gap;
          partial = concat (map (\<lambda>(k, v). case serialize gap ind' v of
                         None \<Rightarrow> []
                       | Some s \<Rightarrow> [json_quote k @ (if gap = [] then '':'' else '': '') @ s]) kvs)
      in if partial = [] then Some ''{}''
         else if gap = [] then Some (''{'' @ join '','' partial @ ''}'')
         else Some (''{'' @ [CHR 0x0A] @ ind' @ join ('','' @ [CHR 0x0A] @ ind') partial
                    @ [CHR 0x0A] @ ind @ ''}''))"
| "serialize gap ind (JBigInt n) = None"

text \<open>\<^verbatim>\<open>JSON.stringify(v)\<close>, on the object of a request: its members are strings, arrays
  of strings or \<^verbatim>\<open>undefined\<close>, never a BigInt.\<close>

definition JSON_stringify :: "jsval \<Rightarrow> jsval" where
  "JSON_stringify v = (case serialize [] [] v of None \<Rightarrow> JUndefined | Some s \<Rightarrow> JStr s)"

text \<open>\<^verbatim>\<open>JSON.stringify(v, null, 2)\<close>, on any value: the text, \<^verbatim>\<open>undefined\<close>, or the
  TypeError.\<close>

definition JSON_stringify2 :: "jsval \<Rightarrow> exn + jsval" where
  "JSON_stringify2 v =
     (if contains_bigint v then Inl bigint_error
      else Inr (case serialize ''  '' [] v of None \<Rightarrow> JUndefined | Some s \<Rightarrow> JStr s))"

section \<open>generateUUID (aiAgent.ts)\<close>

text \<open>
  \<^verbatim>\<open>Math.random()\<close> is a double in [0, 1), so \<^verbatim>\<open>Math.random() * 16 | 0\<close> is one of the
  integers 0 .. 15: a draw is that integer, a 4-bit word, and the random source is the
  sequence of its draws. \<^verbatim>\<open>v.toString(16)\<close> of such a value is one lowercase digit.
\<close>

definition is_lower_hex :: "char \<Rightarrow> bool" where
  "is_lower_hex c = (c \<in> set ''0123456789abcdef'')"

definition toString16 :: "4 word \<Rightarrow> string" where
  "toString16 v = [''0123456789abcdef'' ! unat v]"

text \<open>\<^verbatim>\<open>template.replace(/[xy]/g, f)\<close>: every \<^verbatim>\<open>x\<close> and \<^verbatim>\<open>y\<close>, left to right, is
  replaced by what the callback returns; the callback takes one draw each time.\<close>

fun replace_xy :: "(char \<Rightarrow> 4 word \<Rightarrow> string) \<Rightarrow> string \<Rightarrow> (nat \<Rightarrow> 4 word) \<Rightarrow> nat \<Rightarrow> string \<times> nat" where
  "replace_xy f [] rnd k = ([], k)"
| "replace_xy f (c # cs) rnd k =
     (if c = CHR ''x'' \<or> c = CHR ''y''
      then (let s = f c (rnd k); (rest, k') = replace_xy f cs rnd (Suc k) in (s @ rest, k'))
      else (let (rest, k') = replace_xy f cs rnd k in (c # rest, k')))"

definition uuid_callback :: "char \<Rightarrow> 4 word \<Rightarrow> string" where
  "uuid_callback c r = (let v = (if c = CHR ''x'' then r else ((r AND 0x3) OR 0x8)) in toString16 v)"

definition generateUUID :: "(nat \<Rightarrow> 4 word) \<Rightarrow> nat \<Rightarrow> string \<times> nat" where
  "generateUUID rnd k = replace_xy uuid_callback ''xxxxxxxx-xxxx-4xxx-yxxx-xxxxxxxxxxxx'' rnd k"

section \<open>The platform and the modules outside the two files\<close>

text \<open>
  What the two files take from their surroundings is a parameter of the model:
  \<^item> \<open>fetch\<close>: the outcome of \<^verbatim>\<open>await fetch(url, init)\<close> followed by \<^verbatim>\<open>await res.text()\<close>;
    \<open>Inl\<close> when either rejects (the transport exception), else the status and the body;
  \<^item> \<open>parseLLMJson\<close>: the tolerant extractor of \<^verbatim>\<open>@/utils/jsonParser\<close>, any function
    from the body to a value, or to an exception;
  \<^item> \<open>JSON_parse\<close>: the built-in strict parser, \<open>None\<close> where it throws a SyntaxError;
  \<^item> \<open>isInIframe\<close>: what \<^verbatim>\<open>isInIframe()\<close> of \<^verbatim>\<open>@/components/ErrorBoundary\<close> answers;
  \<^item> \<open>now\<close>: \<^verbatim>\<open>new Date().toISOString()\<close>, one reading per call;
  \<^item> \<open>navigator_userAgent\<close>, \<open>window_location_href\<close>: the browser globals, \<open>None\<close>
    where \<^verbatim>\<open>typeof navigator\<close> (\<^verbatim>\<open>typeof window\<close>) is \<^verbatim>\<open>'undefined'\<close>;
  \<^item> the build-time variables \<^verbatim>\<open>import.meta.env.VITE_*\<close>;
  \<^item> \<open>Math_random16\<close>: the draws \<^verbatim>\<open>Math.random() * 16 | 0\<close>, in order.
\<close>

record http_response =
  resp_status :: nat
  resp_text :: string

record request =
  rq_url :: string
  rq_method :: string
  rq_headers :: "(string \<times> string) list"
  rq_body :: jsval

record env =
  fetch :: "request \<Rightarrow> exn + http_response"
  parseLLMJson :: "string \<Rightarrow> exn + jsval"
  JSON_parse :: "string \<Rightarrow> jsval option"
  isInIframe :: bool
  now :: string
  navigator_userAgent :: "string option"
  window_location_href :: "string option"
  VITE_LYZR_API_KEY :: "string option"
  VITE_AGENT_ID :: "string option"
  Math_random16 :: "nat \<Rightarrow> 4 word"

text \<open>\<^verbatim>\<open>res.ok\<close>: the status is in the range 200-299.\<close>

definition resp_ok :: "http_response \<Rightarrow> bool" where
  "resp_ok res = (200 \<le> resp_status res \<and> resp_status res \<le> 299)"

text \<open>An optional string (\<^verbatim>\<open>string | undefined\<close>) as a value.\<close>

definition of_opt :: "string option \<Rightarrow> jsval" where
  "of_opt x = (case x of None \<Rightarrow> JUndefined | Some s \<Rightarrow> JStr s)"

definition LYZR_API_KEY :: "env \<Rightarrow> string" where
  "LYZR_API_KEY E = to_string (js_or (of_opt (VITE_LYZR_API_KEY E)) (JStr []))"

definition syntax_error :: exn where
  "syntax_error = Error ''SyntaxError'' ''Unexpected token in JSON'' []"

definition reference_error :: "string \<Rightarrow> exn" where
  "reference_error x = Error ''ReferenceError'' (x @ '' is not defined'') []"

definition bind_exn :: "exn + 'a \<Rightarrow> ('a \<Rightarrow> exn + 'b) \<Rightarrow> exn + 'b" where
  "bind_exn m f = (case m of Inl x \<Rightarrow> Inl x | Inr v \<Rightarrow> f v)"

section \<open>Types of useAgent.ts\<close>

datatype error_type = react_error | api_error | parse_error | network_error | unknown

text \<open>\<^verbatim>\<open>ErrorDetails\<close>. A field the object literal leaves out is \<^verbatim>\<open>undefined\<close>;
  \<^verbatim>\<open>componentStack\<close> is never set by this file and is left out of the record.\<close>

record ErrorDetails =
  e_type :: error_type
  e_message :: jsval
  e_stack :: jsval
  e_raw_response :: jsval
  e_endpoint :: string
  e_timestamp :: string
  e_userAgent :: string
  e_url :: string

text \<open>\<^verbatim>\<open>AgentResponse\<close>.\<close>

record AgentResponse =
  r_success :: bool
  r_data :: jsval
  r_message :: jsval
  r_raw_response :: jsval
  r_error :: "ErrorDetails option"

text \<open>
  What a call can change. A registered callback (the global error callback, the hook's
  \<^verbatim>\<open>onError\<close>) is the caller's code: it is a handle here, calling it is recorded with
  its argument, and it returns normally. \<open>parent_messages\<close> are the records handed to
  \<^verbatim>\<open>sendErrorToParent\<close>. The fields \<open>loading\<close>, \<open>hook_error\<close>, \<open>lastResponse\<close> are the
  React state of one \<^verbatim>\<open>useAgent\<close> hook, \<open>console_errors\<close> what \<^verbatim>\<open>console.error\<close>
  printed, \<open>draws\<close> the number of random draws taken so far.
\<close>

record world =
  globalErrorCallback :: "nat option"
  callback_calls :: "(nat \<times> ErrorDetails option) list"
  parent_messages :: "ErrorDetails list"
  loading :: bool
  hook_error :: "ErrorDetails option"
  lastResponse :: jsval
  console_errors :: "exn list"
  draws :: nat

definition call_callback :: "nat \<Rightarrow> ErrorDetails option \<Rightarrow> world \<Rightarrow> world" where
  "call_callback cb arg w = w\<lparr>callback_calls := callback_calls w @ [(cb, arg)]\<rparr>"

text \<open>\<^verbatim>\<open>setGlobalErrorCallback\<close> and \<^verbatim>\<open>clearGlobalError\<close>.\<close>

definition setGlobalErrorCallback :: "nat \<Rightarrow> world \<Rightarrow> world" where
  "setGlobalErrorCallback callback w = w\<lparr>globalErrorCallback := Some callback\<rparr>"

definition clearGlobalError :: "world \<Rightarrow> world" where
  "clearGlobalError w = (case globalErrorCallback w of None \<Rightarrow> w | Some cb \<Rightarrow> call_callback cb None w)"

text \<open>
  Modelled from the spec: \<^verbatim>\<open>sendErrorToParent\<close> of \<^verbatim>\<open>@/components/ErrorBoundary\<close>, which
  is not among the source files. The spec (4.2) has the record forwarded to the host
  frame over a message channel, fire-and-forget, never failing the call: the model
  appends it to the messages sent and returns.
\<close>

definition sendErrorToParent :: "ErrorDetails \<Rightarrow> world \<Rightarrow> world" where
  "sendErrorToParent err w = w\<lparr>parent_messages := parent_messages w @ [err]\<rparr>"

definition LYZR_API_URL :: string where
  "LYZR_API_URL = ''https://agent-prod.studio.lyzr.ai/v3/inference/chat''"

section \<open>extractAgentMessage\<close>

text \<open>
  A property read is \<open>get\<close> where the base may be \<^verbatim>\<open>null\<close> or \<^verbatim>\<open>undefined\<close>; once a
  read of a base has succeeded, or the base has passed a test that only an object or
  array passes, further reads of the same base are \<open>read_prop\<close>.
\<close>

text \<open>Lines 81-86: the response is an object or array without a failure marker.\<close>

definition extract_valid :: "jsval \<Rightarrow> exn + jsval" where
  "extract_valid response =
     (let result = read_prop response ''result'' in
      if truthy (getq result ''message'') then get result ''message''
      else if truthy (read_prop response ''message'') then Inr (read_prop response ''message'')
      else if truthy result \<and> typeof result = ''string'' then Inr result
      else if typeof response = ''string'' then Inr response
      else JSON_stringify2 response)"

text \<open>Lines 94-103: the body of the inner \<^verbatim>\<open>try\<close>, once the raw text has parsed.\<close>

definition extract_parsed :: "jsval \<Rightarrow> exn + jsval" where
  "extract_parsed parsed =
     bind_exn (get parsed ''result'') (\<lambda>result.
       if truthy (getq result ''message'') then get result ''message''
       else if truthy (read_prop parsed ''message'') then Inr (read_prop parsed ''message'')
       else if read_prop parsed ''status'' = JStr ''success'' \<and> truthy result then
         (if typeof result = ''string'' then Inr result
          else bind_exn (get result ''message'') (\<lambda>m.
                 if truthy m then Inr m else JSON_stringify2 result))
       else JSON_stringify2 parsed)"

text \<open>Lines 90-110: the raw response, parsed if it parses, else as it is.\<close>

definition extract_raw :: "env \<Rightarrow> jsval \<Rightarrow> jsval \<Rightarrow> exn + jsval" where
  "extract_raw E data response =
     (let rawResponse = js_or (getq response ''raw_response'') (read_prop data ''raw_response'') in
      if truthy rawResponse then
        (case (case JSON_parse E (to_string rawResponse) of
                 None \<Rightarrow> Inl syntax_error
               | Some parsed \<Rightarrow> extract_parsed parsed) of
           Inl x \<Rightarrow> Inr rawResponse
         | Inr v \<Rightarrow> Inr v)
      else Inr (JStr ''No response received''))"

definition extractAgentMessage :: "env \<Rightarrow> jsval \<Rightarrow> exn + jsval" where
  "extractAgentMessage E data =
     bind_exn (get data ''response'') (\<lambda>response.
       if truthy response \<and> typeof response = ''object'' then
         (if read_prop response ''success'' = JBool False \<or> truthy (read_prop response ''error'')
          then extract_raw E data response
          else extract_valid response)
       else extract_raw E data response)"

text \<open>
  Two names for the statements below, both read off the function. A response is usable
  when it passes the tests of lines 75 and 77: an object or array carrying no failure
  marker. The raw response is what line 91 computes.
\<close>

definition usable_response :: "jsval \<Rightarrow> bool" where
  "usable_response response =
     (truthy response \<and> typeof response = ''object''
      \<and> \<not> (read_prop response ''success'' = JBool False \<or> truthy (read_prop response ''error'')))"

definition raw_response_of :: "jsval \<Rightarrow> jsval" where
  "raw_response_of d = js_or (getq (read_prop d ''response'') ''raw_response'') (read_prop d ''raw_response'')"

section \<open>detectError\<close>

definition userAgent_or_unknown :: "env \<Rightarrow> string" where
  "userAgent_or_unknown E = (case navigator_userAgent E of None \<Rightarrow> ''unknown'' | Some ua \<Rightarrow> ua)"

definition href_or_unknown :: "env \<Rightarrow> string" where
  "href_or_unknown E = (case window_location_href E of None \<Rightarrow> ''unknown'' | Some h \<Rightarrow> h)"

definition detectError :: "env \<Rightarrow> jsval \<Rightarrow> string \<Rightarrow> exn + ErrorDetails option" where
  "detectError E data endpoint =
     bind_exn (get data ''response'') (\<lambda>response.
       if truthy response \<and> typeof response = ''object''
          \<and> read_prop response ''success'' = JBool False \<and> truthy (read_prop response ''error'')
       then Inr (Some \<lparr>e_type = parse_error,
                       e_message = read_prop response ''error'',
                       e_stack = JUndefined,
                       e_raw_response = js_or (read_prop response ''raw_response'') (read_prop data ''raw_response''),
                       e_endpoint = endpoint,
                       e_timestamp = now E,
                       e_userAgent = userAgent_or_unknown E,
                       e_url = href_or_unknown E\<rparr>)
       else if read_prop data ''success'' = JBool False \<and> truthy (read_prop data ''error'')
       then Inr (Some \<lparr>e_type = api_error,
                       e_message = read_prop data ''error'',
                       e_stack = JUndefined,
                       e_raw_response = js_or (read_prop data ''details'') (read_prop data ''raw_response''),
                       e_endpoint = endpoint,
                       e_timestamp = now E,
                       e_userAgent = userAgent_or_unknown E,
                       e_url = href_or_unknown E\<rparr>)
       else Inr None)"

section \<open>The request and the transformed response (useAgent.ts)\<close>

definition of_assets :: "string list option \<Rightarrow> jsval" where
  "of_assets x = (case x of None \<Rightarrow> JUndefined | Some xs \<Rightarrow> JArr (map JStr xs))"

definition agent_request :: "env \<Rightarrow> string \<Rightarrow> jsval \<Rightarrow> jsval \<Rightarrow> jsval \<Rightarrow> jsval \<Rightarrow> request" where
  "agent_request E msg agentId userId sessionId assets =
     \<lparr>rq_url = LYZR_API_URL,
      rq_method = ''POST'',
      rq_headers = [(''Content-Type'', ''application/json''), (''x-api-key'', LYZR_API_KEY E)],
      rq_body = JSON_stringify (JObj [(''message'', JStr msg), (''agent_id'', agentId),
                  (''user_id'', userId), (''session_id'', sessionId), (''assets'', assets)])\<rparr>"

text \<open>\<^verbatim>\<open>parsed?.success === false || parsed?.error\<close>: how both files recognise a failure
  of the extractor.\<close>

definition parse_failed :: "jsval \<Rightarrow> bool" where
  "parse_failed parsed = (getq parsed ''success'' = JBool False \<or> truthy (getq parsed ''error''))"

definition status_message :: "nat \<Rightarrow> string" where
  "status_message n = ''API returned status '' @ nat_to_string n"

text \<open>Lines 197-227 and 355-385: the object \<^verbatim>\<open>data\<close>, the same in the hook and in
  \<^verbatim>\<open>callAgentAPI\<close>.\<close>

definition transform_response :: "env \<Rightarrow> http_response \<Rightarrow> jsval \<Rightarrow> jsval \<Rightarrow> jsval \<Rightarrow> jsval \<Rightarrow> jsval" where
  "transform_response E res parsed agentId userId sessionId =
     (let rawText = resp_text res in
      if resp_ok res then
        (if parse_failed parsed then
           JObj [(''success'', JBool False),
                 (''error'', js_or (getq parsed ''error'') (JStr ''Failed to parse agent response'')),
                 (''raw_response'', JStr rawText)]
         else
           JObj [(''success'', JBool True),
                 (''response'', parsed),
                 (''agent_id'', js_or (getq parsed ''agent_id'') agentId),
                 (''user_id'', js_or (getq parsed ''user_id'') userId),
                 (''session_id'', js_or (getq parsed ''session_id'') sessionId),
                 (''timestamp'', js_or (getq parsed ''timestamp'') (JStr (now E))),
                 (''raw_response'', JStr rawText)])
      else
        JObj [(''success'', JBool False),
              (''error'', js_or (getq parsed ''error'')
                            (js_or (getq parsed ''message'') (JStr (status_message (resp_status res))))),
              (''details'', JStr rawText),
              (''raw_response'', JStr rawText)])"

section \<open>callAgentAPI\<close>

record api_options =
  o_userId :: "string option"
  o_sessionId :: "string option"
  o_assets :: "string list option"

text \<open>Lines 390-395 and 423-428.\<close>

definition forward_error :: "env \<Rightarrow> ErrorDetails \<Rightarrow> world \<Rightarrow> world" where
  "forward_error E err w =
     (if isInIframe E then
        (let w1 = sendErrorToParent err w in
         case globalErrorCallback w1 of None \<Rightarrow> w1 | Some cb \<Rightarrow> call_callback cb (Some err) w1)
      else w)"

text \<open>\<^verbatim>\<open>options?.userId\<close>, \<^verbatim>\<open>options?.sessionId\<close>, \<^verbatim>\<open>options?.assets\<close>.\<close>

definition q_userId :: "api_options option \<Rightarrow> jsval" where
  "q_userId options = (case options of None \<Rightarrow> JUndefined | Some opts \<Rightarrow> of_opt (o_userId opts))"

definition q_sessionId :: "api_options option \<Rightarrow> jsval" where
  "q_sessionId options = (case options of None \<Rightarrow> JUndefined | Some opts \<Rightarrow> of_opt (o_sessionId opts))"

definition q_assets :: "api_options option \<Rightarrow> jsval" where
  "q_assets options = (case options of None \<Rightarrow> JUndefined | Some opts \<Rightarrow> of_assets (o_assets opts))"

definition api_request :: "env \<Rightarrow> string \<Rightarrow> string \<Rightarrow> api_options option \<Rightarrow> request" where
  "api_request E msg agentId options =
     agent_request E msg (JStr agentId) (q_userId options) (q_sessionId options) (q_assets options)"

text \<open>The \<^verbatim>\<open>try\<close> block: the outcome (a thrown exception or the value returned) and the
  world as the block left it.\<close>

definition callAgentAPI_try ::
  "env \<Rightarrow> string \<Rightarrow> string \<Rightarrow> api_options option \<Rightarrow> world \<Rightarrow> (exn + AgentResponse) \<times> world" where
  "callAgentAPI_try E msg agentId options w =
     (case fetch E (api_request E msg agentId options) of
        Inl x \<Rightarrow> (Inl x, w)
      | Inr res \<Rightarrow>
         (case parseLLMJson E (resp_text res) of
            Inl x \<Rightarrow> (Inl x, w)
          | Inr parsed \<Rightarrow>
             (let d = transform_response E res parsed (JStr agentId) (q_userId options) (q_sessionId options) in
              case detectError E d LYZR_API_URL of
                Inl x \<Rightarrow> (Inl x, w)
              | Inr (Some detectedError) \<Rightarrow>
                  (let w1 = forward_error E detectedError w in
                   case extractAgentMessage E d of
                     Inl x \<Rightarrow> (Inl x, w1)
                   | Inr m \<Rightarrow>
                       (Inr \<lparr>r_success = False, r_data = JNull, r_message = m,
                             r_raw_response = read_prop d ''raw_response'',
                             r_error = Some detectedError\<rparr>, w1))
              | Inr None \<Rightarrow>
                  (case extractAgentMessage E d of
                     Inl x \<Rightarrow> (Inl x, w)
                   | Inr m \<Rightarrow>
                       (Inr \<lparr>r_success = True, r_data = read_prop d ''response'', r_message = m,
                             r_raw_response = read_prop d ''raw_response'',
                             r_error = None\<rparr>, w)))))"

text \<open>\<^verbatim>\<open>networkError instanceof Error ? networkError.message : 'Network request failed'\<close>.\<close>

definition network_message :: "exn \<Rightarrow> jsval" where
  "network_message x = (case x of Error n m st \<Rightarrow> JStr m | Thrown v \<Rightarrow> JStr ''Network request failed'')"

text \<open>The \<^verbatim>\<open>catch\<close> block (lines 413-436).\<close>

definition callAgentAPI_catch :: "env \<Rightarrow> exn \<Rightarrow> world \<Rightarrow> (exn + AgentResponse) \<times> world" where
  "callAgentAPI_catch E networkError w =
     (let err = \<lparr>e_type = network_error,
                 e_message = network_message networkError,
                 e_stack = JUndefined,
                 e_raw_response = JUndefined,
                 e_endpoint = ''/api/agent'',
                 e_timestamp = now E,
                 e_userAgent = userAgent_or_unknown E,
                 e_url = href_or_unknown E\<rparr>;
          w1 = forward_error E err w
      in (Inr \<lparr>r_success = False, r_data = JNull, r_message = JStr ''Failed to connect to agent'',
               r_raw_response = JUndefined, r_error = Some err\<rparr>, w1))"

definition callAgentAPI ::
  "env \<Rightarrow> string \<Rightarrow> string \<Rightarrow> api_options option \<Rightarrow> world \<Rightarrow> (exn + AgentResponse) \<times> world" where
  "callAgentAPI E msg agentId options w =
     (case callAgentAPI_try E msg agentId options w of
        (Inr r, w') \<Rightarrow> (Inr r, w')
      | (Inl x, w') \<Rightarrow> callAgentAPI_catch E x w')"

section \<open>The hook: useAgent(options).callAgent\<close>

record UseAgentOptions =
  h_agentId :: "string option"
  h_onError :: "nat option"
  h_showErrorModal :: "bool option"

record AgentCallOptions =
  c_message :: string
  c_agentId :: "string option"
  c_userId :: "string option"
  c_sessionId :: "string option"
  c_assets :: "string list option"

text \<open>Lines 238-249 and 284-293: the host frame, the modal (unless
  \<^verbatim>\<open>showErrorModal\<close> is \<^verbatim>\<open>false\<close>) and the caller's error handler.\<close>

definition report_error :: "env \<Rightarrow> UseAgentOptions \<Rightarrow> ErrorDetails \<Rightarrow> world \<Rightarrow> world" where
  "report_error E options err w =
     (let w1 = (if isInIframe E then
                  (let w' = sendErrorToParent err w in
                   case globalErrorCallback w' of
                     None \<Rightarrow> w'
                   | Some cb \<Rightarrow> if h_showErrorModal options \<noteq> Some False
                                then call_callback cb (Some err) w' else w')
                else w)
      in case h_onError options of None \<Rightarrow> w1 | Some cb \<Rightarrow> call_callback cb (Some err) w1)"

definition callAgent_try ::
  "env \<Rightarrow> UseAgentOptions \<Rightarrow> AgentCallOptions \<Rightarrow> jsval \<Rightarrow> world \<Rightarrow> (exn + AgentResponse) \<times> world" where
  "callAgent_try E options callOptions finalAgentId w =
     (let userId = of_opt (c_userId callOptions);
          sessionId = of_opt (c_sessionId callOptions);
          assets = of_assets (c_assets callOptions)
      in case fetch E (agent_request E (c_message callOptions) finalAgentId userId sessionId assets) of
           Inl x \<Rightarrow> (Inl x, w)
         | Inr res \<Rightarrow>
            (case parseLLMJson E (resp_text res) of
               Inl x \<Rightarrow> (Inl x, w)
             | Inr parsed \<Rightarrow>
                (let d = transform_response E res parsed finalAgentId userId sessionId;
                     w1 = w\<lparr>lastResponse := d\<rparr>
                 in case detectError E d LYZR_API_URL of
                   Inl x \<Rightarrow> (Inl x, w1)
                 | Inr (Some detectedError) \<Rightarrow>
                     (let w2 = w1\<lparr>hook_error := Some detectedError\<rparr>;
                          w3 = report_error E options detectedError w2
                      in case extractAgentMessage E d of
                        Inl x \<Rightarrow> (Inl x, w3)
                      | Inr m \<Rightarrow>
                          (Inr \<lparr>r_success = False, r_data = JNull, r_message = m,
                                r_raw_response = read_prop d ''raw_response'',
                                r_error = Some detectedError\<rparr>, w3))
                 | Inr None \<Rightarrow>
                     (case extractAgentMessage E d of
                        Inl x \<Rightarrow> (Inl x, w1)
                      | Inr m \<Rightarrow>
                          (Inr \<lparr>r_success = True, r_data = read_prop d ''response'', r_message = m,
                                r_raw_response = read_prop d ''raw_response'',
                                r_error = None\<rparr>, w1)))))"

text \<open>The hook reads \<^verbatim>\<open>navigator.userAgent\<close> and \<^verbatim>\<open>window.location.href\<close> with no
  \<^verbatim>\<open>typeof\<close> test: a ReferenceError where the global is not defined.\<close>

definition callAgent_catch :: "env \<Rightarrow> UseAgentOptions \<Rightarrow> exn \<Rightarrow> world \<Rightarrow> (exn + AgentResponse) \<times> world" where
  "callAgent_catch E options networkError w =
     (case navigator_userAgent E of
        None \<Rightarrow> (Inl (reference_error ''navigator''), w)
      | Some ua \<Rightarrow>
         (case window_location_href E of
            None \<Rightarrow> (Inl (reference_error ''window''), w)
          | Some href \<Rightarrow>
             (let err = \<lparr>e_type = network_error,
                         e_message = network_message networkError,
                         e_stack = (case networkError of Error n m st \<Rightarrow> JStr st | Thrown v \<Rightarrow> JUndefined),
                         e_raw_response = JUndefined,
                         e_endpoint = LYZR_API_URL,
                         e_timestamp = now E,
                         e_userAgent = ua,
                         e_url = href\<rparr>;
                  w1 = w\<lparr>hook_error := Some err\<rparr>;
                  w2 = report_error E options err w1
              in (Inr \<lparr>r_success = False, r_data = JNull,
                       r_message = JStr ''Failed to connect to agent'',
                       r_raw_response = JUndefined, r_error = Some err\<rparr>, w2))))"

definition callAgent ::
  "env \<Rightarrow> UseAgentOptions \<Rightarrow> AgentCallOptions \<Rightarrow> world \<Rightarrow> (exn + AgentResponse) \<times> world" where
  "callAgent E options callOptions w =
     (let finalAgentId = js_or (of_opt (c_agentId callOptions))
                           (js_or (of_opt (h_agentId options)) (of_opt (VITE_AGENT_ID E)))
      in if \<not> truthy finalAgentId then
           (case navigator_userAgent E of
              None \<Rightarrow> (Inl (reference_error ''navigator''), w)
            | Some ua \<Rightarrow>
               (case window_location_href E of
                  None \<Rightarrow> (Inl (reference_error ''window''), w)
                | Some href \<Rightarrow>
                   (let err = \<lparr>e_type = api_error,
                               e_message = JStr ''No agent_id provided'',
                               e_stack = JUndefined,
                               e_raw_response = JUndefined,
                               e_endpoint = LYZR_API_URL,
                               e_timestamp = now E,
                               e_userAgent = ua,
                               e_url = href\<rparr>
                    in (Inr \<lparr>r_success = False, r_data = JNull,
                             r_message = JStr ''No agent_id provided'',
                             r_raw_response = JUndefined, r_error = Some err\<rparr>,
                        w\<lparr>hook_error := Some err\<rparr>))))
         else
           (let w1 = w\<lparr>loading := True\<rparr>;
                w2 = w1\<lparr>hook_error := None\<rparr>;
                (outcome, w3) = (case callAgent_try E options callOptions finalAgentId w2 of
                                   (Inr r, w') \<Rightarrow> (Inr r, w')
                                 | (Inl x, w') \<Rightarrow> callAgent_catch E options x w')
            in (outcome, w3\<lparr>loading := False\<rparr>)))"

section \<open>callAIAgent (aiAgent.ts)\<close>

text \<open>\<^verbatim>\<open>AIAgentResponse\<close>; a field the object literal leaves out is \<^verbatim>\<open>undefined\<close>.\<close>

record AIAgentResponse =
  ai_success :: bool
  ai_response :: jsval
  ai_agent_id :: jsval
  ai_user_id :: jsval
  ai_session_id :: jsval
  ai_timestamp :: jsval
  ai_raw_response :: jsval
  ai_error :: jsval
  ai_details :: jsval

record ai_options =
  a_user_id :: "string option"
  a_session_id :: "string option"

definition AI_LYZR_API_URL :: string where
  "AI_LYZR_API_URL = ''https://agent-prod.studio.lyzr.ai/v3/inference/chat/''"

definition ai_failure :: "jsval \<Rightarrow> jsval \<Rightarrow> jsval \<Rightarrow> AIAgentResponse" where
  "ai_failure err details raw =
     \<lparr>ai_success = False, ai_response = JUndefined, ai_agent_id = JUndefined,
      ai_user_id = JUndefined, ai_session_id = JUndefined, ai_timestamp = JUndefined,
      ai_raw_response = raw, ai_error = err, ai_details = details\<rparr>"

text \<open>\<^verbatim>\<open>given || make()\<close>: the generator runs, and takes its draws, only when the option
  is missing or empty.\<close>

definition or_generated :: "env \<Rightarrow> jsval \<Rightarrow> (string \<Rightarrow> string) \<Rightarrow> world \<Rightarrow> jsval \<times> world" where
  "or_generated E given wrap w =
     (if truthy given then (given, w)
      else (let (u, k) = generateUUID (Math_random16 E) (draws w)
            in (JStr (wrap u), w\<lparr>draws := k\<rparr>)))"

definition callAIAgent_try ::
  "env \<Rightarrow> string \<Rightarrow> string \<Rightarrow> ai_options option \<Rightarrow> world \<Rightarrow> (exn + AIAgentResponse) \<times> world" where
  "callAIAgent_try E msg agent_id options w =
     (let (user_id, w1) = or_generated E
             (case options of None \<Rightarrow> JUndefined | Some opts \<Rightarrow> of_opt (a_user_id opts))
             (\<lambda>u. ''user-'' @ u) w;
          (session_id, w2) = or_generated E
             (case options of None \<Rightarrow> JUndefined | Some opts \<Rightarrow> of_opt (a_session_id opts))
             (\<lambda>u. agent_id @ ''-'' @ take 12 u) w1
      in case fetch E \<lparr>rq_url = AI_LYZR_API_URL, rq_method = ''POST'',
                       rq_headers = [(''Content-Type'', ''application/json''), (''x-api-key'', LYZR_API_KEY E)],
                       rq_body = JSON_stringify (JObj [(''message'', JStr msg), (''agent_id'', JStr agent_id),
                                   (''user_id'', user_id), (''session_id'', session_id)])\<rparr> of
           Inl x \<Rightarrow> (Inl x, w2)
         | Inr res \<Rightarrow>
            (let rawText = resp_text res in
             if resp_ok res then
               (case parseLLMJson E rawText of
                  Inl x \<Rightarrow> (Inl x, w2)
                | Inr parsed \<Rightarrow>
                   if parse_failed parsed then
                     (Inr (ai_failure (js_or (getq parsed ''error'') (JStr ''Failed to parse agent response''))
                             JUndefined (JStr rawText)), w2)
                   else
                     (Inr \<lparr>ai_success = True, ai_response = parsed,
                           ai_agent_id = js_or (getq parsed ''agent_id'') (JStr agent_id),
                           ai_user_id = js_or (getq parsed ''user_id'') user_id,
                           ai_session_id = js_or (getq parsed ''session_id'') session_id,
                           ai_timestamp = js_or (getq parsed ''timestamp'') (JStr (now E)),
                           ai_raw_response = JStr rawText,
                           ai_error = JUndefined, ai_details = JUndefined\<rparr>, w2))
             else
               (let errorData =
                      (case bind_exn (parseLLMJson E rawText) (\<lambda>p.
                               if truthy p then Inr p
                               else (case JSON_parse E rawText of
                                       None \<Rightarrow> Inl syntax_error
                                     | Some q \<Rightarrow> Inr q)) of
                         Inl x \<Rightarrow> JObj [(''error'', js_or (JStr rawText) (JStr (status_message (resp_status res))))]
                       | Inr v \<Rightarrow> v)
                in (bind_exn (get errorData ''error'') (\<lambda>err.
                      Inr (ai_failure
                             (js_or err (js_or (read_prop errorData ''message'')
                                                (JStr (status_message (resp_status res)))))
                             (js_or (read_prop errorData ''details'') (JStr rawText))
                             (JStr rawText))), w2))))"



text \<open>\<^verbatim>\<open>error instanceof Error ? error.message : String(error)\<close>.\<close>

definition error_text :: "exn \<Rightarrow> jsval" where
  "error_text x = (case x of Error n m st \<Rightarrow> JStr m | Thrown v \<Rightarrow> JStr (to_string v))"

definition callAIAgent ::
  "env \<Rightarrow> string \<Rightarrow> string \<Rightarrow> ai_options option \<Rightarrow> world \<Rightarrow> (exn + AIAgentResponse) \<times> world" where
  "callAIAgent E msg agent_id options w =
     (case callAIAgent_try E msg agent_id options w of
        (Inr r, w') \<Rightarrow> (Inr r, w')
      | (Inl x, w') \<Rightarrow>
          (Inr (ai_failure (JStr ''Failed to call AI agent'') (error_text x) JUndefined),
           w'\<lparr>console_errors := console_errors w' @ [x]\<rparr>))"

section \<open>An environment for the examples\<close>

text \<open>
  The theorems below hold for every environment. Their examples run in one: a strict
  reader for the fragment of JSON with integer numbers, 8-bit characters and distinct
  keys stands for \<^verbatim>\<open>JSON.parse\<close> (a text outside the fragment is rejected), and the
  extractor is that reader, answering a failure value where the text does not parse.
  The list of units bounds the nesting of the recursion; the text's length plus one is
  enough for every text.
\<close>

fun skip_ws :: "string \<Rightarrow> string" where
  "skip_ws [] = []"
| "skip_ws (c # cs) =
     (if c = CHR '' '' \<or> c = CHR 0x09 \<or> c = CHR 0x0A \<or> c = CHR 0x0D then skip_ws cs else c # cs)"

definition unescape :: "char \<Rightarrow> char option" where
  "unescape e =
     (if e = CHR 0x22 then Some (CHR 0x22)
      else if e = CHR 0x5C then Some (CHR 0x5C)
      else if e = CHR ''/'' then Some (CHR ''/'')
      else if e = CHR ''b'' then Some (CHR 0x08)
      else if e = CHR ''f'' then Some (CHR 0x0C)
      else if e = CHR ''n'' then Some (CHR 0x0A)
      else if e = CHR ''r'' then Some (CHR 0x0D)
      else if e = CHR ''t'' then Some (CHR 0x09)
      else None)"

text \<open>The rest of a string literal, after its opening quote.\<close>

fun read_string :: "string \<Rightarrow> (string \<times> string) option" where
  "read_string [] = None"
| "read_string (c # cs) =
     (if c = CHR 0x22 then Some ([], cs)
      else if c = CHR 0x5C then
        (case cs of
           [] \<Rightarrow> None
         | e # cs' \<Rightarrow>
            (case unescape e of
               None \<Rightarrow> None
             | Some ch \<Rightarrow> (case read_string cs' of None \<Rightarrow> None | Some (str, r) \<Rightarrow> Some (ch # str, r))))
      else if (of_char c :: nat) < 32 then None
      else (case read_string cs of None \<Rightarrow> None | Some (str, r) \<Rightarrow> Some (c # str, r)))"

definition is_digit :: "char \<Rightarrow> bool" where
  "is_digit c = (48 \<le> (of_char c :: nat) \<and> (of_char c :: nat) \<le> 57)"

fun read_digits :: "nat \<Rightarrow> string \<Rightarrow> nat \<times> string" where
  "read_digits acc [] = (acc, [])"
| "read_digits acc (c # cs) =
     (if is_digit c then read_digits (10 * acc + (of_char c - 48)) cs else (acc, c # cs))"

definition read_nat :: "string \<Rightarrow> (nat \<times> string) option" where
  "read_nat s =
     (case s of
        [] \<Rightarrow> None
      | c # cs \<Rightarrow>
         if \<not> is_digit c then None
         else if c = CHR ''0'' \<and> (case cs of [] \<Rightarrow> False | d # ds \<Rightarrow> is_digit d) then None
         else (let (n, r) = read_digits 0 s in
               case r of
                 [] \<Rightarrow> Some (n, r)
               | d # ds \<Rightarrow> if d = CHR ''.'' \<or> d = CHR ''e'' \<or> d = CHR ''E'' then None else Some (n, r)))"

definition read_number :: "string \<Rightarrow> (jsval \<times> string) option" where
  "read_number s =
     (case s of
        [] \<Rightarrow> None
      | c # cs \<Rightarrow>
         if c = CHR ''-'' then (case read_nat cs of None \<Rightarrow> None | Some (n, r) \<Rightarrow> Some (JNum (- int n), r))
         else (case read_nat s of None \<Rightarrow> None | Some (n, r) \<Rightarrow> Some (JNum (int n), r)))"

definition read_literal :: "string \<Rightarrow> (jsval \<times> string) option" where
  "read_literal s =
     (if take 4 s = ''true'' then Some (JBool True, drop 4 s)
      else if take 5 s = ''false'' then Some (JBool False, drop 5 s)
      else if take 4 s = ''null'' then Some (JNull, drop 4 s)
      else read_number s)"

fun read_value :: "unit list \<Rightarrow> string \<Rightarrow> (jsval \<times> string) option"
  and read_elements :: "unit list \<Rightarrow> string \<Rightarrow> (jsval list \<times> string) option"
  and read_members :: "unit list \<Rightarrow> string \<Rightarrow> ((string \<times> jsval) list \<times> string) option" where
  "read_value [] s = None"
| "read_value (u # fuel) s =
     (case skip_ws s of
        [] \<Rightarrow> None
      | c # cs \<Rightarrow>
         if c = CHR ''{'' then
           (case skip_ws cs of
              [] \<Rightarrow> None
            | d # ds \<Rightarrow>
               if d = CHR ''}'' then Some (JObj [], ds)
               else (case read_members fuel cs of
                       None \<Rightarrow> None
                     | Some (kvs, r) \<Rightarrow> if distinct (map fst kvs) then Some (JObj kvs, r) else None))
         else if c = CHR ''['' then
           (case skip_ws cs of
              [] \<Rightarrow> None
            | d # ds \<Rightarrow>
               if d = CHR '']'' then Some (JArr [], ds)
               else (case read_elements fuel cs of None \<Rightarrow> None | Some (vs, r) \<Rightarrow> Some (JArr vs, r)))
         else if c = CHR 0x22 then
           (case read_string cs of None \<Rightarrow> None | Some (str, r) \<Rightarrow> Some (JStr str, r))
         else read_literal (c # cs))"
| "read_elements [] s = None"
| "read_elements (u # fuel) s =
     (case read_value fuel s of
        None \<Rightarrow> None
      | Some (v, r) \<Rightarrow>
         (case skip_ws r of
            [] \<Rightarrow> None
          | c # cs \<Rightarrow>
             if c = CHR '','' then
               (case read_elements fuel cs of None \<Rightarrow> None | Some (vs, r') \<Rightarrow> Some (v # vs, r'))
             else if c = CHR '']'' then Some ([v], cs)
             else None))"
| "read_members [] s = None"
| "read_members (u # fuel) s =
     (case skip_ws s of
        [] \<Rightarrow> None
      | q # cs \<Rightarrow>
         if q \<noteq> CHR 0x22 then None
         else (case read_string cs of
                 None \<Rightarrow> None
               | Some (k, r) \<Rightarrow>
                  (case skip_ws r of
                     [] \<Rightarrow> None
                   | c # r1 \<Rightarrow>
                      if c \<noteq> CHR '':'' then None
                      else (case read_value fuel r1 of
                              None \<Rightarrow> None
                            | Some (v, r2) \<Rightarrow>
                               (case skip_ws r2 of
                                  [] \<Rightarrow> None
                                | d # r3 \<Rightarrow>
                                   if d = CHR '','' then
                                     (case read_members fuel r3 of
                                        None \<Rightarrow> None
                                      | Some (kvs, r4) \<Rightarrow> Some ((k, v) # kvs, r4))
                                   else if d = CHR ''}'' then Some ([(k, v)], r3)
                                   else None)))))"

definition strict_json :: "string \<Rightarrow> jsval option" where
  "strict_json s =
     (case read_value (replicate (Suc (length s)) ()) s of
        None \<Rightarrow> None
      | Some (v, r) \<Rightarrow> if skip_ws r = [] then Some v else None)"

text \<open>
  Modelled from the spec: \<^verbatim>\<open>parseLLMJson\<close> of \<^verbatim>\<open>@/utils/jsonParser\<close>, which is not among
  the source files. Of the extractor of 4.1 this keeps steps 2 and 5: the value of a
  strict parse, else a failure value carrying a diagnostic message and the original
  text, with the marker both callers test (\<^verbatim>\<open>success === false\<close>, \<^verbatim>\<open>error\<close>). It never
  throws.
\<close>

definition strict_extractor :: "string \<Rightarrow> exn + jsval" where
  "strict_extractor s =
     (case strict_json s of
        Some v \<Rightarrow> Inr v
      | None \<Rightarrow> Inr (JObj [(''success'', JBool False),
                            (''error'', JStr ''Could not extract JSON from the response''),
                            (''raw_response'', JStr s)]))"

text \<open>A browser page inside a host frame, with the network answering \<open>outcome\<close>.\<close>

definition example_env :: "exn + http_response \<Rightarrow> env" where
  "example_env outcome =
     \<lparr>fetch = (\<lambda>rq. outcome),
      parseLLMJson = strict_extractor,
      JSON_parse = strict_json,
      isInIframe = True,
      now = ''2025-01-01T00:00:00.000Z'',
      navigator_userAgent = Some ''Mozilla/5.0'',
      window_location_href = Some ''https://app.example/'',
      VITE_LYZR_API_KEY = Some ''key'',
      VITE_AGENT_ID = None,
      Math_random16 = (\<lambda>n. word_of_nat (7 * n + 3))\<rparr>"

definition example_world :: world where
  "example_world =
     \<lparr>globalErrorCallback = Some 0,
      callback_calls = [],
      parent_messages = [],
      loading = False,
      hook_error = None,
      lastResponse = JNull,
      console_errors = [],
      draws = 0\<rparr>"

section \<open>generateUUID: the format of the identifier\<close>

lemma word4_cases: "(w::4 word) \<in> {0,1,2,3,4,5,6,7,8,9,10,11,12,13,14,15}"
proof -
  have "unat w < 16"
    using unsigned_less [of w, where ?'a = nat] by simp
  then have "unat w \<in> {0,1,2,3,4,5,6,7,8,9,10,11,12,13,14,15}"
    by simp arith
  then have "word_of_nat (unat w) \<in> (word_of_nat ` {0,1,2,3,4,5,6,7,8,9,10,11,12,13,14,15} :: 4 word set)"
    by blast
  then show ?thesis by simp
qed

lemma hex_of_draw: "is_lower_hex (''0123456789abcdef'' ! unat (r::4 word))"
  using word4_cases [of r] by (auto simp: is_lower_hex_def)

lemma variant_of_draw: "''0123456789abcdef'' ! unat (((r::4 word) AND 0x3) OR 0x8) \<in> set ''89ab''"
  using word4_cases [of r] by auto

lemma hex_of_variant: "is_lower_hex (''0123456789abcdef'' ! unat (((r::4 word) AND 0x3) OR 0x8))"
  using variant_of_draw [of r] by (auto simp: is_lower_hex_def)

lemma below_36:
  "(i::nat) < 36 \<Longrightarrow> i \<in> {0,1,2,3,4,5,6,7,8,9,10,11,12,13,14,15,16,17,18,19,20,21,22,23,24,25,26,27,28,29,30,31,32,33,34,35}"
  by simp arith

lemmas uuid_unfold = generateUUID_def uuid_callback_def toString16_def

text \<open>
  C10. Whatever the random draws, \<^verbatim>\<open>generateUUID\<close> returns 36 characters: a hyphen at
  the indices 8, 13, 18 and 23, a lowercase hexadecimal digit everywhere else, the digit
  4 at index 14 and one of 8, 9, a, b at index 19. It takes 31 draws.
\<close>

theorem generateUUID_format:
  "length (fst (generateUUID rnd k)) = 36 \<and>
   (\<forall>i<36. if i \<in> {8, 13, 18, 23} then fst (generateUUID rnd k) ! i = CHR ''-''
            else is_lower_hex (fst (generateUUID rnd k) ! i)) \<and>
   fst (generateUUID rnd k) ! 14 = CHR ''4'' \<and>
   fst (generateUUID rnd k) ! 19 \<in> set ''89ab'' \<and>
   snd (generateUUID rnd k) = k + 31"
proof -
  have len: "length (fst (generateUUID rnd k)) = 36"
    by (simp add: uuid_unfold)
  have c14: "fst (generateUUID rnd k) ! 14 = CHR ''4''"
    by (simp add: uuid_unfold)
  have c19: "fst (generateUUID rnd k) ! 19 \<in> set ''89ab''"
    using variant_of_draw by (simp add: uuid_unfold del: set_simps)
  have cnt: "snd (generateUUID rnd k) = k + 31"
    by (simp add: uuid_unfold)
  have each: "if i \<in> {8, 13, 18, 23} then fst (generateUUID rnd k) ! i = CHR ''-''
              else is_lower_hex (fst (generateUUID rnd k) ! i)" if "i < 36" for i
    using below_36 [OF that]
    by (auto simp: uuid_unfold hex_of_draw hex_of_variant) (simp_all add: is_lower_hex_def)
  show ?thesis
    using len c14 c19 cnt each by blast
qed

theorem generateUUID_format_witness:
  "length (fst (generateUUID (\<lambda>n. word_of_nat (7 * n + 3)) 0)) = 36 \<and>
   fst (generateUUID (\<lambda>n. word_of_nat (7 * n + 3)) 0) ! 8 = CHR ''-'' \<and>
   is_lower_hex (fst (generateUUID (\<lambda>n. word_of_nat (7 * n + 3)) 0) ! 35) \<and>
   fst (generateUUID (\<lambda>n. word_of_nat (7 * n + 3)) 0) ! 14 = CHR ''4''"
proof -
  note f = generateUUID_format [of "\<lambda>n. word_of_nat (7 * n + 3)" 0]
  from f have a: "\<forall>i<36. if i \<in> {8, 13, 18, 23}
      then fst (generateUUID (\<lambda>n. word_of_nat (7 * n + 3)) 0) ! i = CHR ''-''
      else is_lower_hex (fst (generateUUID (\<lambda>n. word_of_nat (7 * n + 3)) 0) ! i)"
    by blast
  have a8: "fst (generateUUID (\<lambda>n. word_of_nat (7 * n + 3)) 0) ! 8 = CHR ''-''"
    using a [rule_format, of 8] by simp
  have a35: "is_lower_hex (fst (generateUUID (\<lambda>n. word_of_nat (7 * n + 3)) 0) ! 35)"
    using a [rule_format, of 35] by simp
  show ?thesis using f a8 a35 by blast
qed

section \<open>Values and the extractor of messages\<close>

lemma truthy_not_nullish: "truthy v \<Longrightarrow> \<not> nullish v"
  by (cases v) simp_all

lemma truthy_js_or_right: "truthy b \<Longrightarrow> truthy (js_or a b)"
  by (simp add: js_or_def)

lemma truthy_getq: "truthy (getq v k) \<Longrightarrow> get v k = Inr (getq v k)"
  by (cases "nullish v") (simp_all add: getq_def get_def)

lemma status_message_nonempty: "status_message n \<noteq> []"
  by (simp add: status_message_def)

lemma stringify2_object:
  "truthy v \<Longrightarrow> typeof v = ''object'' \<Longrightarrow> \<not> contains_bigint v \<Longrightarrow> \<exists>s. JSON_stringify2 v = Inr (JStr s)"
  by (cases v) (simp_all add: JSON_stringify2_def Let_def)

lemma stringify2_throws: "JSON_stringify2 v = Inl x \<Longrightarrow> x = bigint_error \<and> contains_bigint v"
  by (auto simp: JSON_stringify2_def split: if_splits)

lemma typeof_string: "typeof v = ''string'' \<Longrightarrow> \<exists>s. v = JStr s"
  by (cases v) simp_all

text \<open>The returns a usable response can reach, in the order of the source; the test of
  line 84 is kept as the source has it.\<close>

lemma extract_valid_value:
  "extract_valid response =
     (if truthy (getq (read_prop response ''result'') ''message'')
        then Inr (getq (read_prop response ''result'') ''message'')
      else if truthy (read_prop response ''message'') then Inr (read_prop response ''message'')
      else if truthy (read_prop response ''result'') \<and> typeof (read_prop response ''result'') = ''string''
        then Inr (read_prop response ''result'')
      else if typeof response = ''string'' then Inr response
      else JSON_stringify2 response)"
  by (simp add: extract_valid_def Let_def truthy_getq)

text \<open>Line 86 is the one place where the function can throw: the serialisation of a
  response that holds a BigInt.\<close>

lemma extract_valid_throws: "extract_valid response = Inl x \<Longrightarrow> x = bigint_error \<and> contains_bigint response"
  by (auto simp: extract_valid_value split: if_splits dest: stringify2_throws)

lemma extract_valid_total: "\<not> contains_bigint response \<Longrightarrow> \<exists>v. extract_valid response = Inr v"
  using extract_valid_throws [of response] by (cases "extract_valid response") auto

text \<open>The inner \<^verbatim>\<open>try\<close> has a catch-all handler.\<close>

lemma extract_raw_total: "\<exists>v. extract_raw E d response = Inr v"
  by (simp add: extract_raw_def Let_def split: sum.splits option.splits)

lemma extractAgentMessage_throws:
  "\<not> nullish d \<Longrightarrow> extractAgentMessage E d = Inl x \<Longrightarrow>
   x = bigint_error \<and> contains_bigint (read_prop d ''response'')"
  using extract_raw_total [of E d "read_prop d ''response''"]
  by (auto simp: extractAgentMessage_def get_def bind_exn_def split: if_splits dest: extract_valid_throws)

lemma extractAgentMessage_total:
  "\<not> nullish d \<Longrightarrow> \<not> contains_bigint (read_prop d ''response'') \<Longrightarrow> \<exists>v. extractAgentMessage E d = Inr v"
  using extractAgentMessage_throws [of d E] by (cases "extractAgentMessage E d") auto

lemma detectError_total: "\<not> nullish d \<Longrightarrow> \<exists>r. detectError E d ep = Inr r"
  by (simp add: detectError_def get_def bind_exn_def)

lemma transform_response_object: "\<exists>kvs. transform_response E res parsed a u s = JObj kvs"
  by (simp add: transform_response_def Let_def)

lemma transform_not_nullish: "\<not> nullish (transform_response E res parsed a u s)"
  using transform_response_object [of E res parsed a u s] by auto

lemma not_ok_data:
  "\<not> resp_ok res \<Longrightarrow>
   transform_response E res parsed a u s =
     JObj [(''success'', JBool False),
           (''error'', js_or (getq parsed ''error'')
                         (js_or (getq parsed ''message'') (JStr (status_message (resp_status res))))),
           (''details'', JStr (resp_text res)),
           (''raw_response'', JStr (resp_text res))]"
  by (simp add: transform_response_def Let_def)



section \<open>The examples' reader on the bodies used below\<close>

lemmas reader_defs = strict_json_def read_literal_def read_number_def read_nat_def is_digit_def unescape_def

lemma strict_json_hello_object:
  \<open>strict_json ''{"result": {"message": "hello"}}'' =
     Some (JObj [(''result'', JObj [(''message'', JStr ''hello'')])])\<close>
  by (simp add: reader_defs)

lemma strict_json_rate_limited:
  \<open>strict_json ''{"error": "rate limited"}'' = Some (JObj [(''error'', JStr ''rate limited'')])\<close>
  by (simp add: reader_defs)

lemma strict_json_oops:
  \<open>strict_json ''{"message": "oops"}'' = Some (JObj [(''message'', JStr ''oops'')])\<close>
  by (simp add: reader_defs)

lemma strict_json_not_json: \<open>strict_json ''not json at all'' = None\<close>
  by (simp add: reader_defs)

lemma strict_json_number: \<open>strict_json ''42'' = Some (JNum 42)\<close>
  by (simp add: reader_defs)

lemma strict_json_hello_string: \<open>strict_json ''"hello"'' = Some (JStr ''hello'')\<close>
  by (simp add: reader_defs)

lemmas env_fields = example_env_def example_world_def strict_extractor_def

lemmas call_defs = callAgentAPI_def callAgentAPI_try_def callAgentAPI_catch_def
  transform_response_def detectError_def extractAgentMessage_def extract_raw_def extract_valid_def
  extract_parsed_def forward_error_def sendErrorToParent_def call_callback_def
  parse_failed_def resp_ok_def get_def getq_def js_or_def bind_exn_def Let_def
  userAgent_or_unknown_def href_or_unknown_def

section \<open>The two call functions always return\<close>













lemma callAIAgent_captures:
  "callAIAgent_try E msg agent_id aopts w = (Inl x, w1) \<Longrightarrow>
   \<exists>r w'. callAIAgent E msg agent_id aopts w = (Inr r, w') \<and> \<not> ai_success r
      \<and> ai_error r = JStr ''Failed to call AI agent'' \<and> ai_details r = error_text x"
  by (simp add: callAIAgent_def ai_failure_def)






section \<open>A success status with a body the extractor rejects\<close>

text \<open>
  \<^verbatim>\<open>detectError\<close> has a \<^verbatim>\<open>parse_error\<close> branch, for a \<^verbatim>\<open>data.response\<close> marked as
  failed. \<^verbatim>\<open>callAgentAPI\<close> never builds such a value: where the extractor failed it
  puts the failure at the top level of \<^verbatim>\<open>data\<close>, and where it sets
  \<^verbatim>\<open>data.response\<close> the value carries no marker. So every error it detects is an
  \<^verbatim>\<open>api_error\<close>.
\<close>

lemma detectError_of_transform:
  "detectError E (transform_response E res parsed a u s) ep = Inr (Some e) \<Longrightarrow> e_type e = api_error"
  by (auto simp: detectError_def transform_response_def get_def bind_exn_def Let_def
        parse_failed_def getq_def
      split: if_splits dest: truthy_not_nullish)

lemma callAgentAPI_never_parse_error:
  assumes "callAgentAPI E msg agentId options w = (Inr r, w')" and "r_error r = Some e"
  shows "e_type e = api_error \<or> e_type e = network_error"
proof (cases "callAgentAPI_try E msg agentId options w")
  case (Pair outcome w1)
  show ?thesis
  proof (cases outcome)
    case (Inl x)
    then show ?thesis
      using assms Pair by (auto simp: callAgentAPI_def callAgentAPI_catch_def Let_def)
  next
    case (Inr r0)
    then have "r0 = r" using assms Pair by (simp add: callAgentAPI_def)
    then show ?thesis
      using Pair Inr assms(2) detectError_of_transform
      by (auto simp: callAgentAPI_try_def Let_def split: sum.splits option.splits)
  qed
qed

text \<open>For every body with a 2xx status that the extractor marks as failed
  (\<^verbatim>\<open>success === false\<close> or a truthy \<^verbatim>\<open>error\<close>): a failure, classified
  \<^verbatim>\<open>api_error\<close>, with the body kept as the raw response.\<close>

lemma ok_parse_failure_is_api_error:
  assumes net: "fetch E (api_request E msg agentId options) = Inr res"
    and status: "resp_ok res"
    and ext: "parseLLMJson E (resp_text res) = Inr parsed"
    and failed: "parse_failed parsed"
  shows "\<exists>r w' e. callAgentAPI E msg agentId options w = (Inr r, w')
            \<and> \<not> r_success r \<and> r_raw_response r = JStr (resp_text res)
            \<and> r_error r = Some e \<and> e_type e = api_error
            \<and> e_raw_response e = JStr (resp_text res)"
proof -
  let ?d = "transform_response E res parsed (JStr agentId) (q_userId options) (q_sessionId options)"
  let ?m = "js_or (getq parsed ''error'') (JStr ''Failed to parse agent response'')"
  have d: "?d = JObj [(''success'', JBool False), (''error'', ?m), (''raw_response'', JStr (resp_text res))]"
    using status failed by (simp add: transform_response_def Let_def)
  have m: "truthy ?m"
    by (simp add: truthy_js_or_right)
  have "\<not> contains_bigint (read_prop ?d ''response'')"
    by (simp add: d)
  then obtain v where v: "extractAgentMessage E ?d = Inr v"
    using extractAgentMessage_total [of ?d E] transform_not_nullish by blast
  have de: "detectError E ?d LYZR_API_URL =
      Inr (Some \<lparr>e_type = api_error, e_message = ?m, e_stack = JUndefined,
                 e_raw_response = JStr (resp_text res),
                 e_endpoint = LYZR_API_URL, e_timestamp = now E,
                 e_userAgent = userAgent_or_unknown E, e_url = href_or_unknown E\<rparr>)"
    using m by (simp add: d detectError_def get_def bind_exn_def) (simp add: js_or_def)
  show ?thesis
    using net ext v de
    by (simp add: callAgentAPI_def callAgentAPI_try_def Let_def) (simp add: d)
qed

text \<open>
  C2. The specification classifies a 2xx status with a body the extractor fails on as
  \<^verbatim>\<open>parse_error\<close>, the body kept verbatim. At status 200 with the body
  \<^verbatim>\<open>not json at all\<close> the call returns a failure whose raw response is the body,
  in the result and in the error record, but the record's type is \<^verbatim>\<open>api_error\<close>.
\<close>

theorem parse_failure_classified_api_error:
  \<open>case callAgentAPI (example_env (Inr \<lparr>resp_status = 200, resp_text = ''not json at all''\<rparr>))
          ''hi'' ''agent-1'' None example_world of
     (Inr r, w') \<Rightarrow> \<not> r_success r \<and> map_option e_type (r_error r) = Some api_error
                    \<and> r_raw_response r = JStr ''not json at all''
                    \<and> map_option e_raw_response (r_error r) = Some (JStr ''not json at all'')
                    \<and> r_message r = JStr ''not json at all''
   | (Inl x, w') \<Rightarrow> False\<close>
  by (simp add: call_defs env_fields strict_json_not_json)

section \<open>The order of extraction\<close>

text \<open>A usable response is never a string, so the test of line 84 never succeeds; a
  string response is handled as a raw response.\<close>

lemma usable_response_not_string: "usable_response response \<Longrightarrow> typeof response \<noteq> ''string''"
  by (simp add: usable_response_def)

lemma string_response_extraction:
  "\<not> nullish d \<Longrightarrow> read_prop d ''response'' = JStr s \<Longrightarrow>
   extractAgentMessage E d = extract_raw E d (JStr s)"
  by (simp add: extractAgentMessage_def get_def bind_exn_def)

text \<open>
  C3. The specification lists five branches, each reachable. The fourth, the parsed value
  that is itself a string, stands inside the block that line 75 opens only for an object:
  a string response never reaches it. Called on a string response the function answers
  the fallback text; through \<^verbatim>\<open>callAgentAPI\<close>, the body \<^verbatim>\<open>"hello"\<close> comes back
  re-serialised from the raw text, quotes included.
\<close>

theorem string_response_not_returned:
  \<open>extractAgentMessage E (JObj [(''response'', JStr ''hello'')]) = Inr (JStr ''No response received'')
   \<and> (case callAgentAPI (example_env (Inr \<lparr>resp_status = 200, resp_text = ''"hello"''\<rparr>))
          ''hi'' ''agent-1'' None example_world of
        (Inr r, w') \<Rightarrow> r_success r \<and> r_data r = JStr ''hello'' \<and> r_message r = JStr ''"hello"''
      | (Inl x, w') \<Rightarrow> False)\<close>
  by (simp add: call_defs env_fields strict_json_hello_string JSON_stringify2_def json_quote_def json_escape_def)

text \<open>
  C7. The specification has the function return its own output unchanged when it is fed
  back as the parsed value. The message \<^verbatim>\<open>hello\<close> it extracts from an object is,
  fed back as the response, answered with the fallback text.
\<close>

theorem extraction_not_idempotent:
  "extractAgentMessage E (JObj [(''response'', JObj [(''message'', JStr ''hello'')])]) = Inr (JStr ''hello'')
   \<and> extractAgentMessage E (JObj [(''response'', JStr ''hello'')]) = Inr (JStr ''No response received'')"
  by (simp add: call_defs)

section \<open>A success with a nested message\<close>

text \<open>
  C4. At status 200 with the body \<^verbatim>\<open>{"result": {"message": "hello"}}\<close>, the extractor
  returning the value of its strict parse, \<^verbatim>\<open>callAgentAPI\<close> returns a success whose
  message is \<^verbatim>\<open>hello\<close>; the data is the parsed value, the raw response the body,
  and the world is left as it was.
\<close>

theorem hello_message_extracted:
  assumes net: \<open>fetch E (api_request E msg agentId options) =
                  Inr \<lparr>resp_status = 200, resp_text = ''{"result": {"message": "hello"}}''\<rparr>\<close>
    and ext: \<open>parseLLMJson E ''{"result": {"message": "hello"}}'' =
                  Inr (JObj [(''result'', JObj [(''message'', JStr ''hello'')])])\<close>
  shows \<open>\<exists>r. callAgentAPI E msg agentId options w = (Inr r, w)
            \<and> r_success r \<and> r_message r = JStr ''hello'' \<and> r_error r = None
            \<and> r_data r = JObj [(''result'', JObj [(''message'', JStr ''hello'')])]
            \<and> r_raw_response r = JStr ''{"result": {"message": "hello"}}''\<close>
  using net ext by (simp add: call_defs)

text \<open>The hypotheses hold in the examples' environment, whose extractor reads the body
  itself.\<close>

theorem hello_message_extracted_witness:
  \<open>\<exists>r. callAgentAPI (example_env (Inr \<lparr>resp_status = 200, resp_text = ''{"result": {"message": "hello"}}''\<rparr>))
           ''hi'' ''agent-1'' None example_world = (Inr r, example_world)
        \<and> r_success r \<and> r_message r = JStr ''hello''\<close>
proof -
  let ?E = \<open>example_env (Inr \<lparr>resp_status = 200, resp_text = ''{"result": {"message": "hello"}}''\<rparr>)\<close>
  have net: \<open>fetch ?E (api_request ?E ''hi'' ''agent-1'' None) =
                  Inr \<lparr>resp_status = 200, resp_text = ''{"result": {"message": "hello"}}''\<rparr>\<close>
    by (simp add: example_env_def)
  have ext: \<open>parseLLMJson ?E ''{"result": {"message": "hello"}}'' =
                  Inr (JObj [(''result'', JObj [(''message'', JStr ''hello'')])])\<close>
    by (simp add: example_env_def strict_extractor_def strict_json_hello_object)
  show ?thesis
    using hello_message_extracted [OF net ext, of example_world] by blast
qed

section \<open>A failure status\<close>

text \<open>
  C5. For every status outside 200-299 and every value the extractor returns,
  \<^verbatim>\<open>callAgentAPI\<close> returns a failure classified \<^verbatim>\<open>api_error\<close> whose raw response, in
  the result and in the error record, is the body. The error's message is the value's
  \<^verbatim>\<open>error\<close> field when that is truthy, else its \<^verbatim>\<open>message\<close> field when that is
  truthy, else the text "API returned status N". For the body
  \<^verbatim>\<open>{"error": "rate limited"}\<close> that is \<^verbatim>\<open>rate limited\<close>.
\<close>

theorem failure_status_api_error:
  assumes net: "fetch E (api_request E msg agentId options) = Inr res"
    and status: "\<not> resp_ok res"
    and ext: "parseLLMJson E (resp_text res) = Inr parsed"
  shows "\<exists>r w' e. callAgentAPI E msg agentId options w = (Inr r, w')
            \<and> \<not> r_success r \<and> r_data r = JNull \<and> r_raw_response r = JStr (resp_text res)
            \<and> r_error r = Some e \<and> e_type e = api_error
            \<and> e_raw_response e = JStr (resp_text res)
            \<and> e_message e =
                (if truthy (getq parsed ''error'') then getq parsed ''error''
                 else if truthy (getq parsed ''message'') then getq parsed ''message''
                 else JStr (status_message (resp_status res)))"
proof -
  let ?d = "transform_response E res parsed (JStr agentId) (q_userId options) (q_sessionId options)"
  let ?m = "js_or (getq parsed ''error'')
              (js_or (getq parsed ''message'') (JStr (status_message (resp_status res))))"
  have d: "?d = JObj [(''success'', JBool False), (''error'', ?m),
                      (''details'', JStr (resp_text res)), (''raw_response'', JStr (resp_text res))]"
    using status by (rule not_ok_data)
  have m: "truthy ?m"
    by (simp add: truthy_js_or_right status_message_nonempty)
  have "\<not> contains_bigint (read_prop ?d ''response'')"
    by (simp add: d)
  then obtain v where v: "extractAgentMessage E ?d = Inr v"
    using extractAgentMessage_total [of ?d E] transform_not_nullish by blast
  have de: "detectError E ?d LYZR_API_URL =
      Inr (Some \<lparr>e_type = api_error, e_message = ?m, e_stack = JUndefined,
                 e_raw_response = JStr (resp_text res),
                 e_endpoint = LYZR_API_URL, e_timestamp = now E,
                 e_userAgent = userAgent_or_unknown E, e_url = href_or_unknown E\<rparr>)"
    using m by (simp add: d detectError_def get_def bind_exn_def) (simp add: js_or_def)
  show ?thesis
    using net ext v de
    by (simp add: callAgentAPI_def callAgentAPI_try_def Let_def) (simp add: d js_or_def)
qed

text \<open>Status 500 with the body \<^verbatim>\<open>{"error": "rate limited"}\<close>.\<close>

theorem failure_status_api_error_witness:
  \<open>\<exists>r w' e. callAgentAPI (example_env (Inr \<lparr>resp_status = 500, resp_text = ''{"error": "rate limited"}''\<rparr>))
           ''hi'' ''agent-1'' None example_world = (Inr r, w')
        \<and> \<not> r_success r \<and> r_raw_response r = JStr ''{"error": "rate limited"}''
        \<and> r_error r = Some e \<and> e_type e = api_error \<and> e_message e = JStr ''rate limited''
        \<and> e_raw_response e = JStr ''{"error": "rate limited"}''\<close>
proof -
  let ?res = \<open>\<lparr>resp_status = 500, resp_text = ''{"error": "rate limited"}''\<rparr>\<close>
  let ?E = \<open>example_env (Inr ?res)\<close>
  have net: "fetch ?E (api_request ?E ''hi'' ''agent-1'' None) = Inr ?res"
    by (simp add: example_env_def)
  have status: "\<not> resp_ok ?res"
    by (simp add: resp_ok_def)
  have ext: "parseLLMJson ?E (resp_text ?res) = Inr (JObj [(''error'', JStr ''rate limited'')])"
    by (simp add: example_env_def strict_extractor_def strict_json_rate_limited)
  show ?thesis
    using failure_status_api_error [OF net status ext, of example_world] by (auto simp: getq_def)
qed

text \<open>
  The specification has the templated text whenever the body has no error field.
  Status 500 with the body \<^verbatim>\<open>{"message": "oops"}\<close>: the parsed value has no
  \<^verbatim>\<open>error\<close> field, and the error's message is \<^verbatim>\<open>oops\<close>, not
  "API returned status 500".
\<close>

theorem message_field_before_template:
  \<open>(case callAgentAPI (example_env (Inr \<lparr>resp_status = 500, resp_text = ''{"message": "oops"}''\<rparr>))
           ''hi'' ''agent-1'' None example_world of
      (Inr r, w') \<Rightarrow> map_option e_message (r_error r) = Some (JStr ''oops'')
    | (Inl x, w') \<Rightarrow> False)
   \<and> strict_json ''{"message": "oops"}'' = Some (JObj [(''message'', JStr ''oops'')])
   \<and> read_prop (JObj [(''message'', JStr ''oops'')]) ''error'' = JUndefined
   \<and> status_message 500 = ''API returned status 500''\<close>
  by (simp add: call_defs env_fields strict_json_oops status_message_def nat_to_string.simps)

section \<open>A transport failure\<close>

text \<open>
  C6. When the transport throws an Error with a message (\<^verbatim>\<open>fetch failed\<close>, or any other),
  \<^verbatim>\<open>callAgentAPI\<close> returns a failure whose error record is classified
  \<^verbatim>\<open>network_error\<close> and carries that message, and whose data is \<^verbatim>\<open>null\<close>.
\<close>

theorem transport_failure_network_error:
  assumes net: "fetch E (api_request E msg agentId options) = Inl (Error name m st)"
  shows "\<exists>r w' e. callAgentAPI E msg agentId options w = (Inr r, w')
            \<and> \<not> r_success r \<and> r_data r = JNull \<and> r_error r = Some e
            \<and> e_type e = network_error \<and> e_message e = JStr m"
  using net
  by (simp add: callAgentAPI_def callAgentAPI_try_def callAgentAPI_catch_def Let_def network_message_def)

text \<open>The transport throwing \<^verbatim>\<open>TypeError: fetch failed\<close>.\<close>

theorem transport_failure_network_error_witness:
  "\<exists>r w' e. callAgentAPI (example_env (Inl (Error ''TypeError'' ''fetch failed'' []))) ''hi'' ''agent-1'' None example_world
               = (Inr r, w')
            \<and> \<not> r_success r \<and> r_data r = JNull \<and> r_error r = Some e
            \<and> e_type e = network_error \<and> e_message e = JStr ''fetch failed''"
proof -
  let ?E = "example_env (Inl (Error ''TypeError'' ''fetch failed'' []))"
  have net: "fetch ?E (api_request ?E ''hi'' ''agent-1'' None) = Inl (Error ''TypeError'' ''fetch failed'' [])"
    by (simp add: example_env_def)
  show ?thesis
    using transport_failure_network_error [OF net, of example_world] .
qed

section \<open>The hook without an agent identifier\<close>

text \<open>
  C8. In a browser, where the globals \<^verbatim>\<open>navigator\<close> and \<^verbatim>\<open>window\<close> are defined, a call
  with no agent identifier, none or an empty one in the call, in the hook's options and
  in the configuration, returns the failure record: success false, data \<^verbatim>\<open>null\<close>, the
  message "No agent_id provided", and an \<^verbatim>\<open>api_error\<close> record with the same message,
  which also becomes the hook's error state. Nothing is thrown and nothing else changes.
\<close>

theorem missing_agent_id_reported:
  assumes a1: "\<not> truthy (of_opt (c_agentId callOptions))"
    and a2: "\<not> truthy (of_opt (h_agentId options))"
    and a3: "\<not> truthy (of_opt (VITE_AGENT_ID E))"
    and nav: "navigator_userAgent E = Some ua"
    and win: "window_location_href E = Some href"
  shows "\<exists>err. callAgent E options callOptions w =
            (Inr \<lparr>r_success = False, r_data = JNull, r_message = JStr ''No agent_id provided'',
                  r_raw_response = JUndefined, r_error = Some err\<rparr>,
             w\<lparr>hook_error := Some err\<rparr>)
          \<and> e_type err = api_error \<and> e_message err = JStr ''No agent_id provided''"
  using a1 a2 a3 nav win
  by (simp add: callAgent_def js_or_def Let_def)

text \<open>No identifier anywhere, in the examples' browser.\<close>

theorem missing_agent_id_reported_witness:
  "\<exists>err. callAgent (example_env (Inl (Thrown JNull)))
             \<lparr>h_agentId = None, h_onError = None, h_showErrorModal = None\<rparr>
             \<lparr>c_message = ''hi'', c_agentId = None, c_userId = None, c_sessionId = None, c_assets = None\<rparr>
             example_world =
            (Inr \<lparr>r_success = False, r_data = JNull, r_message = JStr ''No agent_id provided'',
                  r_raw_response = JUndefined, r_error = Some err\<rparr>,
             example_world\<lparr>hook_error := Some err\<rparr>)
          \<and> e_type err = api_error \<and> e_message err = JStr ''No agent_id provided''"
proof -
  let ?E = "example_env (Inl (Thrown JNull))"
  let ?o = "\<lparr>h_agentId = None, h_onError = None, h_showErrorModal = None\<rparr>"
  let ?c = "\<lparr>c_message = ''hi'', c_agentId = None, c_userId = None, c_sessionId = None, c_assets = None\<rparr>"
  have a1: "\<not> truthy (of_opt (c_agentId ?c))" by (simp add: of_opt_def)
  have a2: "\<not> truthy (of_opt (h_agentId ?o))" by (simp add: of_opt_def)
  have a3: "\<not> truthy (of_opt (VITE_AGENT_ID ?E))" by (simp add: of_opt_def example_env_def)
  have nav: "navigator_userAgent ?E = Some ''Mozilla/5.0''" by (simp add: example_env_def)
  have win: "window_location_href ?E = Some ''https://app.example/''" by (simp add: example_env_def)
  show ?thesis
    using missing_agent_id_reported [OF a1 a2 a3 nav win, of example_world] .
qed

text \<open>
  The specification has the call never throw. The error record of lines 163-170 reads
  \<^verbatim>\<open>navigator.userAgent\<close> and \<^verbatim>\<open>window.location.href\<close> with no \<^verbatim>\<open>typeof\<close> test
  (lines 127-128 and 419-420 have one), outside any \<^verbatim>\<open>try\<close>: where \<^verbatim>\<open>navigator\<close> is
  not defined, the same call throws a ReferenceError and leaves the world as it was.
\<close>

theorem missing_agent_id_outside_browser:
  "callAgent ((example_env (Inl (Thrown JNull)))\<lparr>navigator_userAgent := None\<rparr>)
     \<lparr>h_agentId = None, h_onError = None, h_showErrorModal = None\<rparr>
     \<lparr>c_message = ''hi'', c_agentId = None, c_userId = None, c_sessionId = None, c_assets = None\<rparr>
     example_world
   = (Inl (reference_error ''navigator''), example_world)"
  by (simp add: callAgent_def js_or_def of_opt_def example_env_def Let_def)

section \<open>extractAgentMessage is total\<close>

text \<open>
  C9. The inputs are finite trees of plain data (no getter, no cyclic reference). On
  every input that is neither \<^verbatim>\<open>null\<close> nor \<^verbatim>\<open>undefined\<close> the function throws only
  the TypeError of the serialisation of line 86, and only when the response holds a
  BigInt; when the response holds none, it returns a value. Where the input has neither
  a usable response nor a truthy raw response, of whatever type, the value is the text
  "No response received". For a usable response it is \<^verbatim>\<open>result.message\<close> when that is
  truthy, else \<^verbatim>\<open>message\<close> when that is truthy, each as the payload has it, of whatever
  type; and otherwise a string, or the TypeError.
\<close>

theorem extractAgentMessage_total_with_fallback:
  assumes d: "\<not> nullish d"
  shows "(\<forall>x. extractAgentMessage E d = Inl x \<longrightarrow>
              x = bigint_error \<and> contains_bigint (read_prop d ''response''))
       \<and> (\<not> contains_bigint (read_prop d ''response'') \<longrightarrow> (\<exists>v. extractAgentMessage E d = Inr v))
       \<and> (\<not> usable_response (read_prop d ''response'') \<and> \<not> truthy (raw_response_of d)
            \<longrightarrow> extractAgentMessage E d = Inr (JStr ''No response received''))
       \<and> (usable_response (read_prop d ''response'') \<longrightarrow>
            (let response = read_prop d ''response'';
                 m1 = getq (read_prop response ''result'') ''message'';
                 m2 = read_prop response ''message''
             in if truthy m1 then extractAgentMessage E d = Inr m1
                else if truthy m2 then extractAgentMessage E d = Inr m2
                else (\<exists>s. extractAgentMessage E d = Inr (JStr s))
                     \<or> (contains_bigint response \<and> extractAgentMessage E d = Inl bigint_error)))"
proof (intro conjI impI allI)
  fix x
  assume "extractAgentMessage E d = Inl x"
  then show "x = bigint_error" and "contains_bigint (read_prop d ''response'')"
    using extractAgentMessage_throws [OF d, of E x] by simp_all
next
  assume "\<not> contains_bigint (read_prop d ''response'')"
  then show "\<exists>v. extractAgentMessage E d = Inr v"
    using d by (simp add: extractAgentMessage_total)
next
  assume "\<not> usable_response (read_prop d ''response'') \<and> \<not> truthy (raw_response_of d)"
  then show "extractAgentMessage E d = Inr (JStr ''No response received'')"
    using d
    by (auto simp: extractAgentMessage_def get_def bind_exn_def usable_response_def
          raw_response_of_def extract_raw_def Let_def)
next
  assume u: "usable_response (read_prop d ''response'')"
  let ?r = "read_prop d ''response''"
  have e: "extractAgentMessage E d = extract_valid ?r"
    using d u by (simp add: extractAgentMessage_def get_def bind_exn_def usable_response_def)
  have obj: "truthy ?r" "typeof ?r = ''object''"
    using u by (simp_all add: usable_response_def)
  have s: "(\<exists>s. JSON_stringify2 ?r = Inr (JStr s)) \<or> (contains_bigint ?r \<and> JSON_stringify2 ?r = Inl bigint_error)"
    using stringify2_object [OF obj] by (cases "contains_bigint ?r") (simp_all add: JSON_stringify2_def)
  show "let response = read_prop d ''response'';
            m1 = getq (read_prop response ''result'') ''message'';
            m2 = read_prop response ''message''
        in if truthy m1 then extractAgentMessage E d = Inr m1
           else if truthy m2 then extractAgentMessage E d = Inr m2
           else (\<exists>s. extractAgentMessage E d = Inr (JStr s))
                \<or> (contains_bigint response \<and> extractAgentMessage E d = Inl bigint_error)"
    using obj s typeof_string [of "read_prop ?r ''result''"]
    by (auto simp: e extract_valid_value Let_def)
qed

text \<open>The empty object, which has neither a response nor a raw response, and an object
  with a usable response.\<close>

theorem extractAgentMessage_total_with_fallback_witness:
  "(\<exists>v. extractAgentMessage (example_env (Inl (Thrown JNull))) (JObj []) = Inr v)
   \<and> extractAgentMessage (example_env (Inl (Thrown JNull))) (JObj []) = Inr (JStr ''No response received'')
   \<and> extractAgentMessage (example_env (Inl (Thrown JNull)))
        (JObj [(''response'', JObj [(''result'', JObj [(''message'', JStr ''hello'')])])]) = Inr (JStr ''hello'')"
proof -
  let ?E = "example_env (Inl (Thrown JNull))"
  let ?d = "JObj [(''response'', JObj [(''result'', JObj [(''message'', JStr ''hello'')])])]"
  have n1: "\<not> nullish (JObj [])" by simp
  have n2: "\<not> nullish ?d" by simp
  have f: "\<not> usable_response (read_prop (JObj []) ''response'') \<and> \<not> truthy (raw_response_of (JObj []))"
    by (simp add: usable_response_def raw_response_of_def getq_def js_or_def)
  have u: "usable_response (read_prop ?d ''response'')"
    by (simp add: usable_response_def)
  have a: "extractAgentMessage ?E (JObj []) = Inr (JStr ''No response received'')"
    using extractAgentMessage_total_with_fallback [OF n1, of ?E] f by blast
  have b: "extractAgentMessage ?E ?d = Inr (JStr ''hello'')"
    using extractAgentMessage_total_with_fallback [OF n2, of ?E] u by (simp add: getq_def Let_def)
  show ?thesis using a b by simp
qed

text \<open>
  The specification has the value always a string, the fallback whenever the raw
  response is not a string, and no input that makes the function throw. A usable
  response whose \<^verbatim>\<open>message\<close> is the number 42 is answered with the number 42. An
  input whose only field is the raw response 42, a number, is answered with the text
  \<^verbatim>\<open>42\<close>, not with the fallback. A usable response that holds a BigInt, with no
  message to return, makes the function throw.
\<close>

theorem extractAgentMessage_returns_number:
  "extractAgentMessage (example_env (Inl (Thrown JNull)))
     (JObj [(''response'', JObj [(''message'', JNum 42)])]) = Inr (JNum 42)
   \<and> typeof (JNum 42) = ''number''
   \<and> extractAgentMessage (example_env (Inl (Thrown JNull)))
       (JObj [(''raw_response'', JNum 42)]) = Inr (JStr ''42'')
   \<and> extractAgentMessage (example_env (Inl (Thrown JNull)))
       (JObj [(''response'', JObj [(''count'', JBigInt 10)])]) = Inl bigint_error"
  by (simp add: call_defs example_env_def strict_json_number JSON_stringify2_def
        int_to_string_def nat_to_string.simps)

end
